theory Spec2Isabelle
  imports Complex_Main "HOL-Library.Sublist"
begin

section \<open>JavaScript strings and the built-ins the pipeline uses\<close>

text \<open>
  A JavaScript string is modelled as a \<^typ>\<open>string\<close>: one \<^typ>\<open>char\<close> per code unit, read
  as the code point of the same number, so the model covers the strings whose code units
  are all below 256 (ASCII and Latin-1; \<open>CHR 0xF1\<close> is the n-tilde of the pattern tables).
  A JavaScript value that may be \<open>undefined\<close> or \<open>null\<close> is an \<^typ>\<open>'a option\<close>.
\<close>

definition code_unit :: "char \<Rightarrow> nat" where
  "code_unit c = of_char c"

text \<open>\<open>String.prototype.toLowerCase\<close> on code units below 256: \<open>A\<close>..\<open>Z\<close> and the
  Latin-1 capitals U+00C0..U+00DE (without the multiplication sign U+00D7) move up by 32.\<close>

definition toLowerCase_char :: "char \<Rightarrow> char" where
  "toLowerCase_char c =
     (let n = code_unit c
      in if (65 \<le> n \<and> n \<le> 90) \<or> (192 \<le> n \<and> n \<le> 222 \<and> n \<noteq> 215)
         then char_of (n + 32) else c)"

definition toLowerCase :: "string \<Rightarrow> string" where
  "toLowerCase s = map toLowerCase_char s"

text \<open>The regular-expression classes \<open>[a-z0-9]\<close>, \<open>\d\<close> and \<open>\s\<close>; the last one is also the
  white space that \<open>trim\<close> removes (tab, line feed, vertical tab, form feed, carriage return,
  space, no-break space).\<close>

definition is_az09 :: "char \<Rightarrow> bool" where
  "is_az09 c = (let n = code_unit c in (97 \<le> n \<and> n \<le> 122) \<or> (48 \<le> n \<and> n \<le> 57))"

definition is_digit :: "char \<Rightarrow> bool" where
  "is_digit c = (let n = code_unit c in 48 \<le> n \<and> n \<le> 57)"

definition is_space :: "char \<Rightarrow> bool" where
  "is_space c = (code_unit c \<in> {9, 10, 11, 12, 13, 32, 160})"

definition trim :: "string \<Rightarrow> string" where
  "trim s = rev (dropWhile is_space (rev (dropWhile is_space s)))"

text \<open>\<open>s.includes(p)\<close>: \<open>p\<close> occurs in \<open>s\<close> as a contiguous block.\<close>

definition str_includes :: "string \<Rightarrow> string \<Rightarrow> bool" where
  "str_includes s p = sublist p s"

section \<open>Field Mapper: \<open>detectFieldMappings\<close>\<close>

datatype target_field =
  ItemName | PurchaseDate | Condition | Brand | Model | SerialNumber
  | Specifications | Supplier | Quantity

text \<open>The keys of \<open>fieldPatterns\<close> in the order \<open>Object.entries\<close> lists them.\<close>

definition fieldOrder :: "target_field list" where
  "fieldOrder = [ItemName, PurchaseDate, Condition, Brand, Model, SerialNumber,
                 Specifications, Supplier, Quantity]"

fun fieldPatterns :: "target_field \<Rightarrow> string list" where
  "fieldPatterns ItemName =
     [''nombre'', ''item'', ''descripcion'', ''description'', ''herramienta'', ''tool'',
      ''equipment'', ''producto'', ''product'', ''material'', ''articulo'', ''name'']"
| "fieldPatterns PurchaseDate =
     [''fecha'', ''date'', ''compra'', ''purchase'', [CHR ''a'', CHR 0xF1, CHR ''o''], ''year'',
      ''adquisicion'', ''fechacompra'', ''purchasedate'', ''bought'', ''acquired'']"
| "fieldPatterns Condition =
     [''condicion'', ''condition'', ''estado'', ''state'', ''status'', ''situacion'']"
| "fieldPatterns Brand = [''marca'', ''brand'', ''fabricante'', ''manufacturer'']"
| "fieldPatterns Model = [''modelo'', ''model'', ''tipo'', ''type'']"
| "fieldPatterns SerialNumber = [''serie'', ''serial'', ''numero'', ''nserie'', ''serialnumber'']"
| "fieldPatterns Specifications =
     [''caracteristicas'', ''specs'', ''specifications'', ''features'', ''detalles'']"
| "fieldPatterns Supplier = [''proveedor'', ''supplier'', ''vendor'']"
| "fieldPatterns Quantity = [''cant'', ''cantidad'', ''qty'', ''quantity'', ''unidades'', ''units'']"

text \<open>\<open>h.toLowerCase().replace(/[^a-z0-9]/g, '').replace(/\s+/g, '')\<close>\<close>

definition normalizeHeader :: "string \<Rightarrow> string" where
  "normalizeHeader h = filter (\<lambda>c. \<not> is_space c) (filter is_az09 (toLowerCase h))"

text \<open>\<open>patterns.some(pattern => header.includes(pattern) || pattern.includes(header))\<close>\<close>

definition headerMatches :: "string list \<Rightarrow> string \<Rightarrow> bool" where
  "headerMatches patterns header =
     list_ex (\<lambda>pattern. str_includes header pattern \<or> str_includes pattern header) patterns"

type_synonym mappings = "target_field \<rightharpoonup> nat"

text \<open>\<open>!mappings[field]\<close>: true when the field is absent, and also when it holds index 0.\<close>

definition not_truthy_index :: "nat option \<Rightarrow> bool" where
  "not_truthy_index v = (case v of None \<Rightarrow> True | Some i \<Rightarrow> i = 0)"

text \<open>The body of the inner \<open>forEach\<close>, for one header and its index.\<close>

definition scanHeader :: "target_field \<Rightarrow> nat \<times> string \<Rightarrow> mappings \<Rightarrow> mappings" where
  "scanHeader fld ih m =
     (if headerMatches (fieldPatterns fld) (snd ih)
      then (if not_truthy_index (m fld) then m(fld \<mapsto> fst ih) else m)
      else m)"

definition scanField :: "string list \<Rightarrow> target_field \<Rightarrow> mappings \<Rightarrow> mappings" where
  "scanField normalizedHeaders fld m = fold (scanHeader fld) (enumerate 0 normalizedHeaders) m"

definition detectFieldMappings :: "string list \<Rightarrow> mappings" where
  "detectFieldMappings hdrs =
     (let normalizedHeaders = map normalizeHeader hdrs
      in fold (scanField normalizedHeaders) fieldOrder Map.empty)"

section \<open>Value extractors\<close>

subsection \<open>Category Classifier: \<open>categorizeItem\<close>\<close>

text \<open>The object \<open>categories\<close>, as the list of entries \<open>Object.entries\<close> walks through.\<close>

definition categories :: "(string \<times> string list) list" where
  "categories =
     [(''Power Tools'',
        [''taladro'', ''martillo'', ''radial'', ''amoladora'', ''batidora'', ''sierra'',
         ''drill'', ''hammer'', ''grinder'', ''mixer'', ''saw'', ''cutter'']),
      (''Safety Equipment'',
        [''arnes'', ''casco'', ''safety'', ''protective'', ''proteccion'',
         [CHR ''s'', CHR ''e'', CHR 0xF1, CHR ''a'', CHR ''l''],
         ''helmet'', ''harness'', ''signal'', ''warning'', ''guard'']),
      (''Hand Tools'',
        [''llave'', ''destornillador'', ''pala'', ''martillo'', ''cincel'',
         ''wrench'', ''screwdriver'', ''shovel'', ''chisel'', ''pliers'']),
      (''Measuring Tools'',
        [''metro'', ''nivel'', ''regla'', ''medidor'',
         ''measure'', ''level'', ''ruler'', ''gauge'']),
      (''Power Equipment'',
        [''grupo'', ''generador'', ''compresor'', ''motor'',
         ''generator'', ''compressor'', ''engine'', ''power'']),
      (''Construction Materials'',
        [''cable'', ''tubo'', ''material'', ''alambre'',
         ''pipe'', ''wire'', ''beam'', ''rod''])]"

text \<open>\<open>x || ''\<close> for a string that may be absent.\<close>

definition or_empty :: "string option \<Rightarrow> string" where
  "or_empty v = (case v of None \<Rightarrow> [] | Some s \<Rightarrow> s)"

fun categorize_loop :: "string \<Rightarrow> (string \<times> string list) list \<Rightarrow> string" where
  "categorize_loop name [] = ''General Equipment''"
| "categorize_loop name ((category, keywords) # rest) =
     (if list_ex (\<lambda>keyword. str_includes name keyword) keywords then category
      else categorize_loop name rest)"

definition categorizeItem :: "string option \<Rightarrow> string" where
  "categorizeItem itemName = categorize_loop (toLowerCase (or_empty itemName)) categories"

subsection \<open>The regular expressions of the Date Normalizer\<close>

text \<open>
  The five patterns are sequences of two kinds of item: a literal character, and a
  capturing group \<open>(\d{lo,hi})\<close>. \<open>match_here\<close> matches a pattern at the start of a string
  and returns the captured groups; a group is greedy and backtracks, so it tries the
  longest run of digits first and shorter ones down to \<open>lo\<close>. \<open>search\<close> is the unanchored
  \<open>String.prototype.match\<close>: the leftmost start at which the pattern matches.
\<close>

datatype re_item = Lit char | Digits nat nat

fun first_some :: "'a option list \<Rightarrow> 'a option" where
  "first_some [] = None"
| "first_some (None # xs) = first_some xs"
| "first_some (Some x # xs) = Some x"

fun match_here :: "re_item list \<Rightarrow> string \<Rightarrow> string list option" where
  "match_here [] s = Some []"
| "match_here (Lit c # r) s =
     (case s of [] \<Rightarrow> None | x # t \<Rightarrow> if x = c then match_here r t else None)"
| "match_here (Digits lo hi # r) s =
     (let avail = length (takeWhile is_digit (take hi s))
      in first_some
           (map (\<lambda>k. map_option (\<lambda>groups. take k s # groups) (match_here r (drop k s)))
                (rev [lo..<Suc avail])))"

fun search :: "re_item list \<Rightarrow> string \<Rightarrow> string list option" where
  "search re [] = match_here re []"
| "search re (c # s) =
     (case match_here re (c # s) of Some groups \<Rightarrow> Some groups | None \<Rightarrow> search re s)"

definition datePatterns :: "re_item list list" where
  "datePatterns =
     [[Digits 1 2, Lit CHR ''/'', Digits 1 2, Lit CHR ''/'', Digits 4 4],
      [Digits 1 2, Lit CHR ''-'', Digits 1 2, Lit CHR ''-'', Digits 4 4],
      [Digits 4 4, Lit CHR ''-'', Digits 1 2, Lit CHR ''-'', Digits 1 2],
      [Digits 4 4, Lit CHR ''/'', Digits 1 2, Lit CHR ''/'', Digits 1 2],
      [Digits 4 4]]"

subsection \<open>Date Normalizer: \<open>formatPurchaseDate\<close>\<close>

text \<open>\<open>parseInt\<close> on a run of decimal digits (what a group captures), the decimal text of
  a number as a template literal prints it, and \<open>padStart\<close>.\<close>

definition parseInt :: "string \<Rightarrow> nat" where
  "parseInt ds = foldl (\<lambda>n c. 10 * n + (code_unit c - 48)) 0 ds"

fun toString_nat :: "nat \<Rightarrow> string" where
  "toString_nat n =
     (if n < 10 then [char_of (48 + n)]
      else toString_nat (n div 10) @ [char_of (48 + n mod 10)])"

definition padStart :: "nat \<Rightarrow> char \<Rightarrow> string \<Rightarrow> string" where
  "padStart n c s = replicate (n - length s) c @ s"

text \<open>The body of the \<open>for\<close> loop over \<open>patterns\<close>; a pattern is told apart by its position,
  as the source compares it with \<open>patterns[4]\<close>, \<open>patterns[2]\<close> and \<open>patterns[3]\<close>.
  \<open>currentYear\<close> is \<open>new Date().getFullYear()\<close>.\<close>

fun date_loop :: "nat \<Rightarrow> string \<Rightarrow> (nat \<times> re_item list) list \<Rightarrow> string option" where
  "date_loop currentYear dateStr [] = None"
| "date_loop currentYear dateStr ((i, pattern) # rest) =
     (case search pattern dateStr of
        None \<Rightarrow> date_loop currentYear dateStr rest
      | Some groups \<Rightarrow>
          if i = 4 then
            (let year = parseInt (groups ! 0)
             in if year > 1900 \<and> year \<le> currentYear + 5
                then Some (toString_nat year @ ''-01-01'')
                else date_loop currentYear dateStr rest)
          else if i = 2 \<or> i = 3 then Some dateStr
          else
            (let month = padStart 2 CHR ''0'' (groups ! 0);
                 day = padStart 2 CHR ''0'' (groups ! 1);
                 year = groups ! 2
             in Some (year @ ''-'' @ month @ ''-'' @ day)))"

definition formatPurchaseDate :: "nat \<Rightarrow> string option \<Rightarrow> string option" where
  "formatPurchaseDate currentYear dateValue =
     (case dateValue of
        None \<Rightarrow> None
      | Some v \<Rightarrow>
          if v = [] then None
          else date_loop currentYear (trim v) (enumerate 0 datePatterns))"

subsection \<open>Reading a mapped cell: \<open>getFieldValue\<close>\<close>

text \<open>\<open>row[index]\<close> is \<open>undefined\<close> beyond the end of the row, as is any array read.\<close>

definition array_get :: "'a list \<Rightarrow> nat \<Rightarrow> 'a option" where
  "array_get xs i = (if i < length xs then Some (xs ! i) else None)"

definition getFieldValue :: "string list \<Rightarrow> nat option \<Rightarrow> string" where
  "getFieldValue row index =
     (case index of None \<Rightarrow> [] | Some i \<Rightarrow> trim (or_empty (array_get row i)))"

subsection \<open>Description Composer: \<open>buildDescription\<close>\<close>

text \<open>The property name under which a field is stored in \<open>mappings\<close>.\<close>

fun fieldKey :: "target_field \<Rightarrow> string" where
  "fieldKey ItemName = ''itemName''"
| "fieldKey PurchaseDate = ''purchaseDate''"
| "fieldKey Condition = ''condition''"
| "fieldKey Brand = ''brand''"
| "fieldKey Model = ''model''"
| "fieldKey SerialNumber = ''serialNumber''"
| "fieldKey Specifications = ''specifications''"
| "fieldKey Supplier = ''supplier''"
| "fieldKey Quantity = ''quantity''"

definition descriptionFields :: "target_field list" where
  "descriptionFields = [Brand, Model, SerialNumber, Specifications, Supplier, Quantity]"

fun join :: "string \<Rightarrow> string list \<Rightarrow> string" where
  "join sep [] = []"
| "join sep [x] = x"
| "join sep (x # y # ys) = x @ sep @ join sep (y # ys)"

text \<open>One round of \<open>descriptionFields.forEach\<close>: the part pushed for a field, if any.
  \<open>headers[mappings[field]] || field\<close> falls back to the field's key when the header is
  missing or empty.\<close>

definition descriptionPart ::
    "string list \<Rightarrow> mappings \<Rightarrow> string list \<Rightarrow> target_field \<Rightarrow> string option" where
  "descriptionPart row m hdrs fld =
     (let v = getFieldValue row (m fld)
      in if v \<noteq> [] \<and> trim v \<noteq> [] then
           (let h = or_empty (case m fld of None \<Rightarrow> None | Some i \<Rightarrow> array_get hdrs i);
                fieldName = (if h \<noteq> [] then h else fieldKey fld)
            in Some (fieldName @ '': '' @ v))
         else None)"

definition buildDescription :: "string list \<Rightarrow> mappings \<Rightarrow> string list \<Rightarrow> string" where
  "buildDescription row m hdrs =
     (let parts = List.map_filter (descriptionPart row m hdrs) descriptionFields;
          joined = join '' | '' parts
      in if joined \<noteq> [] then joined else ''No additional details available'')"

section \<open>Confidence and validation\<close>

definition calculateItemConfidence :: "string list \<Rightarrow> mappings \<Rightarrow> nat" where
  "calculateItemConfidence row m =
     (let score = 0;
          score = (if getFieldValue row (m ItemName) \<noteq> [] then score + 50 else score);
          score = (if getFieldValue row (m Brand) \<noteq> [] then score + 15 else score);
          score = (if getFieldValue row (m Model) \<noteq> [] then score + 15 else score);
          score = (if getFieldValue row (m PurchaseDate) \<noteq> [] then score + 10 else score);
          score = (if getFieldValue row (m Specifications) \<noteq> [] then score + 10 else score)
      in min score 100)"

record validation_issue =
  field :: string
  message :: string
  severity :: string

definition validateItem :: "string list \<Rightarrow> mappings \<Rightarrow> validation_issue list" where
  "validateItem row m =
     (if getFieldValue row (m ItemName) = []
      then [\<lparr>field = ''itemName'', message = ''Item name is required'', severity = ''error''\<rparr>]
      else [])"

section \<open>Table Normalizer: \<open>processAzureTable\<close>\<close>

record cell =
  rowIndex :: nat
  columnIndex :: nat
  content :: "string option"

record azure_table =
  cells :: "cell list"

record table_data =
  headers :: "string list"
  rows :: "string list list"

text \<open>\<open>cellMap\<close> is keyed by the text \<open>rowIndex-columnIndex\<close>, which tells two pairs of
  natural numbers apart, so the key is the pair; a later cell overwrites an earlier one at
  the same coordinates.\<close>

definition fillCellMap :: "cell list \<Rightarrow> (nat \<times> nat \<rightharpoonup> string)" where
  "fillCellMap cs =
     fold (\<lambda>c cellMap. cellMap((rowIndex c, columnIndex c) \<mapsto> or_empty (content c))) cs Map.empty"

text \<open>The value of \<open>Math.max\<close> on the numbers \<open>xs\<close>: \<open>-Infinity\<close> for no arguments. The
  source passes the numbers by spread; the call itself, which can fail, is
  \<open>Math_max_spread\<close> below.\<close>

datatype bound = NegInfinity | Num nat

definition Math_max :: "nat list \<Rightarrow> bound" where
  "Math_max xs = (if xs = [] then NegInfinity else Num (Max (set xs)))"

text \<open>The indices a loop \<open>for (let i = start; i <= upper; i++)\<close> visits.\<close>

definition loop_range :: "nat \<Rightarrow> bound \<Rightarrow> nat list" where
  "loop_range start upper = (case upper of NegInfinity \<Rightarrow> [] | Num m \<Rightarrow> [start..<Suc m])"

definition processAzureTable :: "azure_table \<Rightarrow> table_data" where
  "processAzureTable table =
     (let cellMap = fillCellMap (cells table);
          maxRow = Math_max (map rowIndex (cells table));
          maxCol = Math_max (map columnIndex (cells table))
      in \<lparr>headers = map (\<lambda>col. or_empty (cellMap (0, col))) (loop_range 0 maxCol),
          rows = map (\<lambda>row. map (\<lambda>col. or_empty (cellMap (row, col))) (loop_range 0 maxCol))
                     (loop_range 1 maxRow)\<rparr>)"

text \<open>
  The call as the source makes it. \<open>Math.max(...table.cells.map(...))\<close> spreads one
  argument per cell, and a call with more arguments than the engine accepts raises
  \<open>RangeError\<close>. The limit belongs to the engine and not to the program, so it is the
  parameter \<open>argLimit\<close>. \<open>processAzureTable_call\<close> is the function with this error path:
  \<open>cellMap\<close> is filled, then the two maxima are taken, and only then are the headers and
  the rows built. \<open>processAzureTable\<close> above is the table it returns when both calls
  return (\<open>processAzureTable_call_within\<close>).
\<close>

datatype js_error = RangeError

definition Math_max_spread :: "nat \<Rightarrow> nat list \<Rightarrow> js_error + bound" where
  "Math_max_spread argLimit xs =
     (if argLimit < length xs then Inl RangeError else Inr (Math_max xs))"

definition processAzureTable_call :: "nat \<Rightarrow> azure_table \<Rightarrow> js_error + table_data" where
  "processAzureTable_call argLimit table =
     (let cellMap = fillCellMap (cells table)
      in case Math_max_spread argLimit (map rowIndex (cells table)) of
           Inl e \<Rightarrow> Inl e
         | Inr maxRow \<Rightarrow>
             (case Math_max_spread argLimit (map columnIndex (cells table)) of
                Inl e \<Rightarrow> Inl e
              | Inr maxCol \<Rightarrow>
                  Inr \<lparr>headers = map (\<lambda>col. or_empty (cellMap (0, col))) (loop_range 0 maxCol),
                       rows = map (\<lambda>row. map (\<lambda>col. or_empty (cellMap (row, col)))
                                              (loop_range 0 maxCol))
                                  (loop_range 1 maxRow)\<rparr>))"

section \<open>Orchestrator: the handler of \<open>POST /extract-inventory\<close>\<close>

text \<open>
  The model starts where the handler holds the analysis result: \<open>currentYear\<close> is the
  year of the clock, \<open>projName\<close> the project name derived from the file name, and
  \<open>result_tables\<close> the \<open>tables\<close> property of the result (absent, or a list of tables).
  It describes the requests in which the call of the Table Normalizer returns, and uses the
  table \<open>processAzureTable\<close> that the call returns then.
\<close>

record inventory_item =
  item_id :: string
  project :: string
  itemName :: string
  category :: string
  condition :: string
  purchaseDate :: "string option"
  description :: string
  confidence :: nat
  validationIssues :: "validation_issue list"
  source :: string

record processing_info =
  service :: string
  tablesDetected :: nat
  confidenceScore :: nat
  targetFields :: "string list"
  fieldMappingSuccess :: bool

record response =
  success :: bool
  extractedItems :: "inventory_item list"
  totalItems :: nat
  projectName :: string
  processingInfo :: processing_info

text \<open>\<open>Object.keys(TARGET_FIELDS)\<close>\<close>

definition TARGET_FIELDS_keys :: "string list" where
  "TARGET_FIELDS_keys =
     [''project'', ''itemName'', ''category'', ''condition'', ''purchaseDate'', ''description'']"

text \<open>\<open>a || b\<close> on strings: the empty string is falsy.\<close>

definition or_else :: "string \<Rightarrow> string \<Rightarrow> string" where
  "or_else a b = (if a \<noteq> [] then a else b)"

text \<open>\<open>row.some(cell => cell.trim())\<close>\<close>

definition hasContent :: "string list \<Rightarrow> bool" where
  "hasContent row = list_ex (\<lambda>cell. trim cell \<noteq> []) row"

definition makeItem ::
    "nat \<Rightarrow> string \<Rightarrow> mappings \<Rightarrow> string list \<Rightarrow> nat \<Rightarrow> string list \<Rightarrow> inventory_item" where
  "makeItem currentYear projName fieldMappings hdrs index row =
     (let name = or_else (getFieldValue row (fieldMappings ItemName))
                         (''Item '' @ toString_nat (index + 1))
      in \<lparr>item_id = ''azure_'' @ toString_nat index,
          project = projName,
          itemName = trim name,
          category = categorizeItem (Some name),
          condition = or_else (getFieldValue row (fieldMappings Condition)) ''Good'',
          purchaseDate =
            formatPurchaseDate currentYear (Some (getFieldValue row (fieldMappings PurchaseDate))),
          description = buildDescription row fieldMappings hdrs,
          confidence = calculateItemConfidence row fieldMappings,
          validationIssues = validateItem row fieldMappings,
          source = ''azure_ai''\<rparr>)"

text \<open>The body of \<open>tableData.rows.forEach\<close>, on the pair of \<open>extractedItems\<close> and
  \<open>totalConfidence\<close>.\<close>

definition processRow ::
    "nat \<Rightarrow> string \<Rightarrow> mappings \<Rightarrow> string list \<Rightarrow> nat \<times> string list
     \<Rightarrow> inventory_item list \<times> nat \<Rightarrow> inventory_item list \<times> nat" where
  "processRow currentYear projName fieldMappings hdrs ir st =
     (if hasContent (snd ir)
      then (fst st @ [makeItem currentYear projName fieldMappings hdrs (fst ir) (snd ir)],
            snd st + calculateItemConfidence (snd ir) fieldMappings)
      else st)"

definition processRows ::
    "nat \<Rightarrow> string \<Rightarrow> mappings \<Rightarrow> string list \<Rightarrow> string list list
     \<Rightarrow> inventory_item list \<times> nat" where
  "processRows currentYear projName fieldMappings hdrs rws =
     fold (processRow currentYear projName fieldMappings hdrs) (enumerate 0 rws) ([], 0)"

text \<open>\<open>Math.round(a / n)\<close> for a sum \<open>a\<close> of scores and a positive count \<open>n\<close>: the quotient
  rounded to the nearest integer, a tie going up. The source divides in double precision;
  with scores of at most 100 the rounded quotient is the exact one as long as the number of
  rows stays below \<open>2 ^ 45\<close>, since a quotient that is not a tie is at least \<open>1 / (2 * n)\<close>
  away from one.\<close>

definition Math_round_div :: "nat \<Rightarrow> nat \<Rightarrow> nat" where
  "Math_round_div a n = (2 * a + n) div (2 * n)"

definition extractItems ::
    "nat \<Rightarrow> string \<Rightarrow> azure_table list \<Rightarrow> inventory_item list \<times> nat" where
  "extractItems currentYear projName tables =
     (if length tables > 0 then
        (let mainTable = tables ! 0;
             tableData = processAzureTable mainTable
         in if length (headers tableData) > 0 \<and> length (rows tableData) > 0
            then processRows currentYear projName (detectFieldMappings (headers tableData))
                   (headers tableData) (rows tableData)
            else ([], 0))
      else ([], 0))"

definition extractInventory :: "nat \<Rightarrow> string \<Rightarrow> azure_table list option \<Rightarrow> response" where
  "extractInventory currentYear projName result_tables =
     (let tables = (case result_tables of None \<Rightarrow> [] | Some ts \<Rightarrow> ts);
          st = extractItems currentYear projName tables;
          avgConfidence =
            (if length (fst st) > 0 then Math_round_div (snd st) (length (fst st)) else 0)
      in \<lparr>success = True,
          extractedItems = fst st,
          totalItems = length (fst st),
          projectName = projName,
          processingInfo =
            \<lparr>service = ''Azure Document Intelligence'',
             tablesDetected = length tables,
             confidenceScore = avgConfidence,
             targetFields = TARGET_FIELDS_keys,
             fieldMappingSuccess = (length (fst st) > 0)\<rparr>\<rparr>)"

section \<open>Inputs and reference definitions of the properties\<close>

text \<open>The document of the end-to-end scenario, as the analysis service reports its table.\<close>

definition scenario_table :: azure_table where
  "scenario_table =
     \<lparr>cells =
        [\<lparr>rowIndex = 0, columnIndex = 0, content = Some ''Nombre''\<rparr>,
         \<lparr>rowIndex = 0, columnIndex = 1, content = Some ''Marca''\<rparr>,
         \<lparr>rowIndex = 0, columnIndex = 2, content = Some ''Fecha Compra''\<rparr>,
         \<lparr>rowIndex = 1, columnIndex = 0, content = Some ''Taladro Bosch''\<rparr>,
         \<lparr>rowIndex = 1, columnIndex = 1, content = Some ''Bosch''\<rparr>,
         \<lparr>rowIndex = 1, columnIndex = 2, content = Some ''05/14/2023''\<rparr>]\<rparr>"

text \<open>A table with a header row and no data row, and a table whose second data row is
  blank (one cell of spaces, one cell absent).\<close>

definition header_only_table :: azure_table where
  "header_only_table =
     \<lparr>cells = [\<lparr>rowIndex = 0, columnIndex = 0, content = Some ''Nombre''\<rparr>]\<rparr>"

definition blank_row_table :: azure_table where
  "blank_row_table =
     \<lparr>cells =
        [\<lparr>rowIndex = 0, columnIndex = 0, content = Some ''Nombre''\<rparr>,
         \<lparr>rowIndex = 0, columnIndex = 1, content = Some ''Marca''\<rparr>,
         \<lparr>rowIndex = 1, columnIndex = 0, content = Some ''Taladro Bosch''\<rparr>,
         \<lparr>rowIndex = 1, columnIndex = 1, content = Some ''Bosch''\<rparr>,
         \<lparr>rowIndex = 2, columnIndex = 0, content = Some ''  ''\<rparr>,
         \<lparr>rowIndex = 3, columnIndex = 0, content = Some ''Casco''\<rparr>,
         \<lparr>rowIndex = 3, columnIndex = 1, content = None\<rparr>]\<rparr>"

text \<open>The columns whose normalized header matches a field, in ascending order, and the
  column the scan of a field ends with: the first matching column, unless that is column
  0 and another column matches, in which case it is the second (\<open>keepOrTake\<close> is one step
  of the scan on the field's entry).\<close>

definition matchingColumns :: "target_field \<Rightarrow> string list \<Rightarrow> nat list" where
  "matchingColumns f hdrs =
     map fst (filter (\<lambda>ih. headerMatches (fieldPatterns f) (normalizeHeader (snd ih)))
                     (enumerate 0 hdrs))"

fun assignedColumn :: "nat list \<Rightarrow> nat option" where
  "assignedColumn [] = None"
| "assignedColumn [k] = Some k"
| "assignedColumn (k # j # ks) = (if k = 0 then Some j else Some k)"

definition keepOrTake :: "nat \<Rightarrow> nat option \<Rightarrow> nat option" where
  "keepOrTake k v = (if not_truthy_index v then Some k else v)"

text \<open>The weights of the confidence score as a table, and when a mapped field counts: it
  is mapped to a column of the row whose cell is not empty after trimming.\<close>

definition confidenceWeights :: "(target_field \<times> nat) list" where
  "confidenceWeights =
     [(ItemName, 50), (Brand, 15), (Model, 15), (PurchaseDate, 10), (Specifications, 10)]"

definition fieldPresent :: "string list \<Rightarrow> mappings \<Rightarrow> target_field \<Rightarrow> bool" where
  "fieldPresent row m f =
     (case m f of None \<Rightarrow> False | Some i \<Rightarrow> i < length row \<and> trim (row ! i) \<noteq> [])"

text \<open>The text the sparse cell collection holds at a coordinate: the content of the last
  cell listed there, the empty string when no cell is there or its content is absent.
  \<open>gridAt\<close> reads the normalized table at the coordinates of the input: row 0 is the
  headers, row \<open>r\<close> from 1 on is the data row \<open>r - 1\<close>.\<close>

definition cellAt :: "cell list \<Rightarrow> nat \<Rightarrow> nat \<Rightarrow> string" where
  "cellAt cs r c =
     (let hits = filter (\<lambda>x. rowIndex x = r \<and> columnIndex x = c) cs
      in if hits = [] then [] else or_empty (content (last hits)))"

definition gridAt :: "table_data \<Rightarrow> nat \<Rightarrow> nat \<Rightarrow> string" where
  "gridAt td r c = (if r = 0 then headers td ! c else rows td ! (r - 1) ! c)"

text \<open>A row all of whose cells are empty after trimming, and the rows of a table that are
  not, each with its 0-based index.\<close>

definition allBlank :: "string list \<Rightarrow> bool" where
  "allBlank row = (\<forall>cell \<in> set row. trim cell = [])"

definition keptRows :: "string list list \<Rightarrow> (nat \<times> string list) list" where
  "keptRows rws = filter (\<lambda>ir. \<not> allBlank (snd ir)) (enumerate 0 rws)"

section \<open>Evaluation lemmas\<close>

declare toString_nat.simps [simp del]

lemma toString_nat_2023: "toString_nat 2023 = ''2023''"
  by code_simp

lemma formatPurchaseDate_2023:
  "formatPurchaseDate currentYear (Some ''2023'') =
     (if 2023 \<le> currentYear + 5 then Some ''2023-01-01'' else None)"
  apply code_simp
  apply (simp add: toString_nat_2023)
  done

section \<open>Lemmas about the operations\<close>

lemma headerMatches_empty: "headerMatches (fieldPatterns f) []"
  by (cases f) (simp_all add: headerMatches_def str_includes_def)

lemma scanField_single_empty:
  "scanField [[]] f m = (if not_truthy_index (m f) then m(f \<mapsto> 0) else m)"
  by (simp add: scanField_def enumerate_simps scanHeader_def headerMatches_empty)

lemma detectFieldMappings_single_empty:
  "normalizeHeader h = [] \<Longrightarrow> detectFieldMappings [h] f = Some 0"
  by (cases f)
     (simp_all add: detectFieldMappings_def fieldOrder_def scanField_single_empty not_truthy_index_def)

lemma scanHeader_other: "g \<noteq> f \<Longrightarrow> scanHeader f ih m g = m g"
  by (simp add: scanHeader_def)

lemma scanHeader_same:
  "scanHeader f ih m f =
     (if headerMatches (fieldPatterns f) (snd ih) then keepOrTake (fst ih) (m f) else m f)"
  by (simp add: scanHeader_def keepOrTake_def)

lemma fold_scanHeader_other: "g \<noteq> f \<Longrightarrow> fold (scanHeader f) ihs m g = m g"
  by (induction ihs arbitrary: m) (simp_all add: scanHeader_other)

lemma fold_scanHeader_same:
  "fold (scanHeader f) ihs m f =
     fold keepOrTake (map fst (filter (\<lambda>ih. headerMatches (fieldPatterns f) (snd ih)) ihs)) (m f)"
  by (induction ihs arbitrary: m) (simp_all add: scanHeader_same)

lemma fold_keepOrTake_positive: "0 < k \<Longrightarrow> fold keepOrTake ks (Some k) = Some k"
  by (induction ks) (simp_all add: keepOrTake_def not_truthy_index_def)

lemma fold_keepOrTake_None:
  "sorted_wrt (<) ks \<Longrightarrow> fold keepOrTake ks None = assignedColumn ks"
proof (cases ks)
  case Nil
  then show ?thesis by simp
next
  case (Cons k rest)
  assume srt: "sorted_wrt (<) ks"
  show ?thesis
  proof (cases "k = 0")
    case False
    then have "fold keepOrTake rest (Some k) = Some k"
      by (simp add: fold_keepOrTake_positive)
    with False Cons show ?thesis
      by (cases rest) (simp_all add: keepOrTake_def not_truthy_index_def)
  next
    case True
    show ?thesis
    proof (cases rest)
      case Nil
      with True Cons show ?thesis by (simp add: keepOrTake_def not_truthy_index_def)
    next
      case (Cons j more)
      with srt \<open>ks = k # rest\<close> True have "0 < j" by simp
      then have "fold keepOrTake more (Some j) = Some j"
        by (simp add: fold_keepOrTake_positive)
      with True Cons \<open>ks = k # rest\<close> show ?thesis
        by (simp add: keepOrTake_def not_truthy_index_def)
    qed
  qed
qed

lemma sorted_matching:
  "sorted_wrt (<) (map fst (filter P (enumerate n xs)))"
proof -
  have "sorted_wrt (<) (map fst (enumerate n xs))"
    by (simp add: map_fst_enumerate)
  then have "sorted_wrt (\<lambda>a b. fst a < fst b) (enumerate n xs)"
    by (simp only: sorted_wrt_map [of "(<)" fst "enumerate n xs"])
  then have "sorted_wrt (\<lambda>a b. fst a < fst b) (filter P (enumerate n xs))"
    by (rule sorted_wrt_filter)
  then show ?thesis
    by (simp only: sorted_wrt_map [of "(<)" fst "filter P (enumerate n xs)"])
qed

lemma filter_enumerate_map:
  "filter (\<lambda>ih. P (snd ih)) (enumerate n (map g xs)) =
     map (\<lambda>ih. (fst ih, g (snd ih))) (filter (\<lambda>ih. P (g (snd ih))) (enumerate n xs))"
  by (induction xs arbitrary: n) simp_all

lemma scanField_same:
  "m f = None \<Longrightarrow> scanField (map normalizeHeader hdrs) f m f = assignedColumn (matchingColumns f hdrs)"
proof -
  assume none: "m f = None"
  have "map fst (filter (\<lambda>ih. headerMatches (fieldPatterns f) (snd ih))
            (enumerate 0 (map normalizeHeader hdrs))) = matchingColumns f hdrs"
    by (simp add: matchingColumns_def filter_enumerate_map comp_def)
  then show ?thesis
    using none
    by (simp add: scanField_def fold_scanHeader_same fold_keepOrTake_None
          matchingColumns_def sorted_matching)
qed

lemma scanField_other: "g \<noteq> f \<Longrightarrow> scanField nhs f m g = m g"
  by (simp add: scanField_def fold_scanHeader_other)

lemma fold_scanField_other:
  "f \<notin> set fs \<Longrightarrow> fold (scanField nhs) fs m f = m f"
  by (induction fs arbitrary: m) (auto simp: scanField_other)

lemma fold_scanField:
  "distinct fs \<Longrightarrow> m f = None \<Longrightarrow>
     fold (scanField (map normalizeHeader hdrs)) fs m f =
       (if f \<in> set fs then assignedColumn (matchingColumns f hdrs) else None)"
proof (induction fs arbitrary: m)
  case Nil
  then show ?case by simp
next
  case (Cons g fs)
  show ?case
  proof (cases "g = f")
    case True
    with Cons.prems have "f \<notin> set fs" by simp
    then have "fold (scanField (map normalizeHeader hdrs)) fs
            (scanField (map normalizeHeader hdrs) f m) f =
          scanField (map normalizeHeader hdrs) f m f"
      by (rule fold_scanField_other)
    with True Cons.prems show ?thesis by (simp add: scanField_same)
  next
    case False
    with Cons.prems have "scanField (map normalizeHeader hdrs) g m f = None"
      by (simp add: scanField_other)
    with Cons.IH [of "scanField (map normalizeHeader hdrs) g m"] Cons.prems False
    show ?thesis by simp
  qed
qed

lemma detectFieldMappings_assignedColumn:
  "detectFieldMappings hdrs f = assignedColumn (matchingColumns f hdrs)"
proof -
  have "distinct fieldOrder" by (simp add: fieldOrder_def)
  moreover have "f \<in> set fieldOrder" by (cases f) (simp_all add: fieldOrder_def)
  ultimately show ?thesis
    by (simp add: detectFieldMappings_def fold_scanField)
qed

lemma trim_Nil: "trim [] = []" by (simp add: trim_def)

lemma getFieldValue_present: "getFieldValue row (m f) \<noteq> [] \<longleftrightarrow> fieldPresent row m f"
  by (simp add: getFieldValue_def fieldPresent_def array_get_def or_empty_def trim_Nil
           split: option.splits)

lemma fillCellMap_snoc:
  "fillCellMap (cs @ [x]) = (fillCellMap cs)((rowIndex x, columnIndex x) \<mapsto> or_empty (content x))"
  by (simp add: fillCellMap_def)

lemma fillCellMap_cellAt: "or_empty (fillCellMap cs (r, c)) = cellAt cs r c"
proof (induction cs rule: rev_induct)
  case Nil
  show ?case by (simp add: fillCellMap_def cellAt_def or_empty_def)
next
  case (snoc x xs)
  show ?case
  proof (cases "rowIndex x = r \<and> columnIndex x = c")
    case True
    then show ?thesis
      by (simp add: fillCellMap_snoc cellAt_def or_empty_def)
  next
    case False
    then have "fillCellMap (xs @ [x]) (r, c) = fillCellMap xs (r, c)"
      by (auto simp: fillCellMap_snoc)
    moreover from False have "cellAt (xs @ [x]) r c = cellAt xs r c"
      by (auto simp: cellAt_def)
    ultimately show ?thesis using snoc.IH by simp
  qed
qed

lemma cellAt_missing:
  "\<forall>x \<in> set cs. \<not> (rowIndex x = r \<and> columnIndex x = c) \<Longrightarrow> cellAt cs r c = []"
  by (simp add: cellAt_def filter_False)

lemma headers_processAzureTable:
  "cells t \<noteq> [] \<Longrightarrow>
     headers (processAzureTable t) =
       map (\<lambda>col. cellAt (cells t) 0 col) [0..<Suc (Max (columnIndex ` set (cells t)))]"
  by (simp add: processAzureTable_def Let_def Math_max_def loop_range_def fillCellMap_cellAt)

lemma rows_processAzureTable:
  "cells t \<noteq> [] \<Longrightarrow>
     rows (processAzureTable t) =
       map (\<lambda>row. map (\<lambda>col. cellAt (cells t) row col) [0..<Suc (Max (columnIndex ` set (cells t)))])
           [1..<Suc (Max (rowIndex ` set (cells t)))]"
  by (simp add: processAzureTable_def Let_def Math_max_def loop_range_def fillCellMap_cellAt)

lemma processAzureTable_Nil:
  "cells t = [] \<Longrightarrow> processAzureTable t = \<lparr>headers = [], rows = []\<rparr>"
  by (simp add: processAzureTable_def Let_def Math_max_def loop_range_def)

lemma processAzureTable_call_within:
  "length (cells t) \<le> argLimit \<Longrightarrow>
     processAzureTable_call argLimit t = Inr (processAzureTable t)"
  by (simp add: processAzureTable_call_def processAzureTable_def Math_max_spread_def Let_def)

lemma processAzureTable_call_beyond:
  "argLimit < length (cells t) \<Longrightarrow> processAzureTable_call argLimit t = Inl RangeError"
  by (simp add: processAzureTable_call_def Math_max_spread_def Let_def)

lemma extractItems_Nil: "extractItems cy proj [] = ([], 0)"
  by (simp add: extractItems_def)

lemma extractItems_guard:
  "headers (processAzureTable t) = [] \<or> rows (processAzureTable t) = [] \<Longrightarrow>
     extractItems cy proj (t # ts) = ([], 0)"
  by (auto simp: extractItems_def Let_def)

lemma extractItems_main:
  "headers (processAzureTable t) \<noteq> [] \<Longrightarrow> rows (processAzureTable t) \<noteq> [] \<Longrightarrow>
     extractItems cy proj (t # ts) =
       processRows cy proj (detectFieldMappings (headers (processAzureTable t)))
         (headers (processAzureTable t)) (rows (processAzureTable t))"
  by (simp add: extractItems_def Let_def)

lemma response_of_no_items:
  "extractItems cy proj (case rt of None \<Rightarrow> [] | Some ts \<Rightarrow> ts) = ([], 0) \<Longrightarrow>
     success (extractInventory cy proj rt)
     \<and> extractedItems (extractInventory cy proj rt) = []
     \<and> totalItems (extractInventory cy proj rt) = 0
     \<and> confidenceScore (processingInfo (extractInventory cy proj rt)) = 0
     \<and> \<not> fieldMappingSuccess (processingInfo (extractInventory cy proj rt))"
  by (simp add: extractInventory_def Let_def)

lemma hasContent_iff: "hasContent row \<longleftrightarrow> \<not> allBlank row"
  by (simp add: hasContent_def allBlank_def list_ex_iff)

lemma processRow_blank: "allBlank row \<Longrightarrow> processRow cy proj m hdrs (i, row) st = st"
  by (simp add: processRow_def hasContent_iff)

lemma processRow_step:
  "processRow cy proj m hdrs (i, row) (items, tot) =
     (if allBlank row then (items, tot)
      else (items @ [makeItem cy proj m hdrs i row], tot + calculateItemConfidence row m))"
  by (simp add: processRow_def hasContent_iff)

lemma fold_processRow:
  "fold (processRow cy proj m hdrs) (enumerate n rws) (items, tot) =
     (items @ map (\<lambda>ir. makeItem cy proj m hdrs (fst ir) (snd ir))
                  (filter (\<lambda>ir. \<not> allBlank (snd ir)) (enumerate n rws)),
      tot + sum_list (map (\<lambda>ir. calculateItemConfidence (snd ir) m)
                  (filter (\<lambda>ir. \<not> allBlank (snd ir)) (enumerate n rws))))"
proof (induction rws arbitrary: n items tot)
  case Nil
  show ?case by simp
next
  case (Cons row rws)
  show ?case
    by (simp add: processRow_step Cons.IH)
qed

lemma processRows_kept:
  "processRows cy proj m hdrs rws =
     (map (\<lambda>ir. makeItem cy proj m hdrs (fst ir) (snd ir)) (keptRows rws),
      sum_list (map (\<lambda>ir. calculateItemConfidence (snd ir) m) (keptRows rws)))"
  by (simp add: processRows_def keptRows_def fold_processRow)

lemma Math_round_div_real:
  "0 < n \<Longrightarrow> int (Math_round_div a n) = \<lfloor>real a / real n + 1 / 2\<rfloor>"
proof -
  assume n: "0 < n"
  have "real a / real n + 1 / 2 = real (2 * a + n) / real (2 * n)"
    using n by (simp add: field_simps)
  then show ?thesis
    by (simp only: Math_round_div_def floor_divide_of_nat_eq)
qed

section \<open>Field Mapper: the first column\<close>

text \<open>
  C1. The claim: a field goes to the first column whose normalized header matches, and later
  columns never change it, also when that first column is column 0. The guard
  \<open>!mappings[field]\<close> is meant to keep the first assignment, but index 0 is falsy, so a
  field assigned to column 0 is assigned again at the next matching column
  (\<open>detectFieldMappings_assignedColumn\<close> gives the column for every headers list). For the
  headers \<open>Nombre\<close>, \<open>Item\<close> both columns match the patterns of \<open>itemName\<close>, column 0 is
  the first, and the mapper returns column 1.
\<close>

theorem detectFieldMappings_column0_reassigned:
  "headerMatches (fieldPatterns ItemName) (normalizeHeader ''Nombre'')
   \<and> headerMatches (fieldPatterns ItemName) (normalizeHeader ''Item'')
   \<and> detectFieldMappings [''Nombre'', ''Item''] ItemName = Some 1"
  by code_simp

section \<open>Table Normalizer: the empty cell collection\<close>

text \<open>
  C2, as stated: on an empty cell collection the Table Normalizer fails with an
  EmptyTableError instead of returning a table. The code raises nothing there: a spread of
  no arguments is within every limit, both maxima are \<open>-Infinity\<close>, no loop runs, and the
  table with no headers and no rows is returned.
\<close>

theorem processAzureTable_empty_cells_value:
  "processAzureTable \<lparr>cells = []\<rparr> = \<lparr>headers = [], rows = []\<rparr>
   \<and> (\<forall>argLimit. processAzureTable_call argLimit \<lparr>cells = []\<rparr>
          = Inr \<lparr>headers = [], rows = []\<rparr>)"
proof -
  have v: "processAzureTable \<lparr>cells = []\<rparr> = \<lparr>headers = [], rows = []\<rparr>"
    by code_simp
  have "processAzureTable_call argLimit \<lparr>cells = []\<rparr> = Inr \<lparr>headers = [], rows = []\<rparr>"
    for argLimit
    using processAzureTable_call_within [of "\<lparr>cells = []\<rparr>" argLimit] v by simp
  with v show ?thesis by blast
qed

text \<open>
  C2, amended: on an empty cell collection the Table Normalizer raises no error and returns
  the table with no headers and no rows; on a non-empty cell collection whose number of
  cells is within the engine's limit on the arguments of a call it returns normally, a
  table with at least one header column. (Beyond that limit the spread call raises
  \<open>RangeError\<close>, \<open>processAzureTable_call_beyond\<close>; nothing else in the function raises.)
\<close>

theorem processAzureTable_call_returns:
  "(cells t = [] \<longrightarrow>
      processAzureTable_call argLimit t = Inr \<lparr>headers = [], rows = []\<rparr>)
   \<and> (cells t \<noteq> [] \<and> length (cells t) \<le> argLimit \<longrightarrow>
        processAzureTable_call argLimit t = Inr (processAzureTable t)
        \<and> headers (processAzureTable t) \<noteq> [])"
proof -
  have "processAzureTable_call argLimit t = Inr \<lparr>headers = [], rows = []\<rparr>"
    if "cells t = []"
    using that processAzureTable_call_within [of t argLimit]
    by (simp add: processAzureTable_Nil)
  moreover have "processAzureTable_call argLimit t = Inr (processAzureTable t)
        \<and> headers (processAzureTable t) \<noteq> []"
    if "cells t \<noteq> []" "length (cells t) \<le> argLimit"
    using that by (simp add: processAzureTable_call_within headers_processAzureTable)
  ultimately show ?thesis by blast
qed

theorem processAzureTable_call_returns_witness:
  "processAzureTable_call 120000 \<lparr>cells = []\<rparr> = Inr \<lparr>headers = [], rows = []\<rparr>
   \<and> cells header_only_table \<noteq> []
   \<and> length (cells header_only_table) \<le> 120000
   \<and> processAzureTable_call 120000 header_only_table = Inr (processAzureTable header_only_table)
   \<and> headers (processAzureTable header_only_table) = [''Nombre'']"
proof -
  have ne: "cells header_only_table \<noteq> []"
    by (simp add: header_only_table_def)
  have le: "length (cells header_only_table) \<le> 120000"
    by (simp add: header_only_table_def)
  have hs: "headers (processAzureTable header_only_table) = [''Nombre'']"
    by code_simp
  have "processAzureTable_call 120000 header_only_table = Inr (processAzureTable header_only_table)"
    using processAzureTable_call_returns [of header_only_table 120000] ne le by blast
  moreover have
    "processAzureTable_call 120000 \<lparr>cells = []\<rparr> = Inr \<lparr>headers = [], rows = []\<rparr>"
    using processAzureTable_call_returns [of "\<lparr>cells = []\<rparr>" 120000] by simp
  ultimately show ?thesis using ne le hs by blast
qed

section \<open>Table Normalizer: rectangularity\<close>

text \<open>
  C6. For a non-empty cell collection, with \<open>maxRow\<close> and \<open>maxCol\<close> the largest row and
  column index of a cell: the headers have \<open>maxCol + 1\<close> entries, there are \<open>maxRow\<close> data
  rows, every data row is as long as the headers, and at every coordinate up to
  \<open>(maxRow, maxCol)\<close> the table holds the text of the input at that coordinate (row 0 in
  the headers, row \<open>r\<close> in data row \<open>r - 1\<close>), which is the empty string where the input
  has no cell.
\<close>

theorem processAzureTable_rectangular:
  "cells t \<noteq> [] \<Longrightarrow>
     length (headers (processAzureTable t)) = Suc (Max (columnIndex ` set (cells t)))
     \<and> length (rows (processAzureTable t)) = Max (rowIndex ` set (cells t))
     \<and> (\<forall>row \<in> set (rows (processAzureTable t)).
           length row = length (headers (processAzureTable t)))
     \<and> (\<forall>r \<le> Max (rowIndex ` set (cells t)). \<forall>c \<le> Max (columnIndex ` set (cells t)).
           gridAt (processAzureTable t) r c = cellAt (cells t) r c
           \<and> ((\<forall>x \<in> set (cells t). \<not> (rowIndex x = r \<and> columnIndex x = c))
                \<longrightarrow> gridAt (processAzureTable t) r c = []))"
proof -
  assume ne: "cells t \<noteq> []"
  let ?mc = "Max (columnIndex ` set (cells t))"
  let ?mr = "Max (rowIndex ` set (cells t))"
  have grid: "gridAt (processAzureTable t) r c = cellAt (cells t) r c"
    if "r \<le> ?mr" "c \<le> ?mc" for r c
  proof (cases "r = 0")
    case True
    with that show ?thesis
      by (simp add: gridAt_def headers_processAzureTable [OF ne] nth_map_upt del: upt_Suc)
  next
    case False
    with that have "r - 1 < ?mr" by simp
    with False that show ?thesis
      by (simp add: gridAt_def rows_processAzureTable [OF ne] nth_map_upt del: upt_Suc)
  qed
  have rect: "\<forall>row \<in> set (rows (processAzureTable t)).
           length row = length (headers (processAzureTable t))"
    by (auto simp: rows_processAzureTable [OF ne] headers_processAzureTable [OF ne] simp del: upt_Suc)
  show ?thesis
    using grid rect
    by (simp add: rows_processAzureTable [OF ne] headers_processAzureTable [OF ne] cellAt_missing
             del: upt_Suc)
qed

theorem processAzureTable_rectangular_witness:
  "cells scenario_table \<noteq> []
   \<and> length (headers (processAzureTable scenario_table)) = 3
   \<and> length (rows (processAzureTable scenario_table)) = 1
   \<and> list_all (\<lambda>row. length row = length (headers (processAzureTable scenario_table)))
        (rows (processAzureTable scenario_table))"
proof -
  have ne: "cells scenario_table \<noteq> []" by code_simp
  have mc: "Max (columnIndex ` set (cells scenario_table)) = 2" by code_simp
  have mr: "Max (rowIndex ` set (cells scenario_table)) = 1" by code_simp
  from processAzureTable_rectangular [OF ne] ne mc mr show ?thesis
    by (simp add: list_all_iff)
qed

section \<open>Category Classifier\<close>

text \<open>
  C7. \<open>Taladro Percutor\<close> is classified as Power Tools, \<open>Casco de Seguridad\<close> as Safety
  Equipment, \<open>Widget XYZ\<close> as the default General Equipment; an absent name and the empty
  name give General Equipment as well. The classifier is a total function: there is no
  input on which it raises.
\<close>

theorem categorizeItem_examples:
  "categorizeItem (Some ''Taladro Percutor'') = ''Power Tools''
   \<and> categorizeItem (Some ''Casco de Seguridad'') = ''Safety Equipment''
   \<and> categorizeItem (Some ''Widget XYZ'') = ''General Equipment''
   \<and> categorizeItem None = ''General Equipment''
   \<and> categorizeItem (Some []) = ''General Equipment''"
  by code_simp

section \<open>Date Normalizer\<close>

text \<open>
  C4. The table of the Date Normalizer: \<open>2023-05-14\<close> is returned unchanged, \<open>05/14/2023\<close>
  becomes \<open>2023-05-14\<close>, the bare year \<open>2023\<close> becomes \<open>2023-01-01\<close>, the bare year \<open>1850\<close>
  is outside the accepted range and gives null, the empty string and null give null; and
  every input gives a string or null (the model is a total function: the source has no
  statement that raises on a string or on null). The accepted range of a bare year ends at
  \<open>currentYear + 5\<close>, so the row for \<open>2023\<close> is the one that depends on the clock: it
  holds from the year 2018 on. The other rows hold whatever the clock.
\<close>

theorem formatPurchaseDate_table:
  "formatPurchaseDate currentYear (Some ''2023-05-14'') = Some ''2023-05-14''
   \<and> formatPurchaseDate currentYear (Some ''05/14/2023'') = Some ''2023-05-14''
   \<and> (2018 \<le> currentYear \<longrightarrow>
        formatPurchaseDate currentYear (Some ''2023'') = Some ''2023-01-01'')
   \<and> formatPurchaseDate currentYear (Some ''1850'') = None
   \<and> formatPurchaseDate currentYear (Some []) = None
   \<and> formatPurchaseDate currentYear None = None
   \<and> (\<forall>v. formatPurchaseDate currentYear v = None
          \<or> (\<exists>s. formatPurchaseDate currentYear v = Some s))"
proof -
  have a: "formatPurchaseDate currentYear (Some ''2023-05-14'') = Some ''2023-05-14''"
    by code_simp
  have b: "formatPurchaseDate currentYear (Some ''05/14/2023'') = Some ''2023-05-14''"
    by code_simp
  have c: "2018 \<le> currentYear \<longrightarrow>
             formatPurchaseDate currentYear (Some ''2023'') = Some ''2023-01-01''"
    by (simp add: formatPurchaseDate_2023)
  have d: "formatPurchaseDate currentYear (Some ''1850'') = None"
    by code_simp
  have e: "formatPurchaseDate currentYear (Some []) = None"
    by (simp add: formatPurchaseDate_def)
  have f: "formatPurchaseDate currentYear None = None"
    by (simp add: formatPurchaseDate_def)
  have g: "\<forall>v. formatPurchaseDate currentYear v = None
            \<or> (\<exists>s. formatPurchaseDate currentYear v = Some s)"
    by auto
  from a b c d e f g show ?thesis by blast
qed

theorem formatPurchaseDate_table_witness:
  "formatPurchaseDate 2026 (Some ''2023-05-14'') = Some ''2023-05-14''
   \<and> formatPurchaseDate 2026 (Some ''05/14/2023'') = Some ''2023-05-14''
   \<and> formatPurchaseDate 2026 (Some ''2023'') = Some ''2023-01-01''
   \<and> formatPurchaseDate 2026 (Some ''1850'') = None
   \<and> formatPurchaseDate 2026 (Some []) = None
   \<and> formatPurchaseDate 2026 None = None"
  using formatPurchaseDate_table [of 2026] by simp

section \<open>End-to-end scenario\<close>

text \<open>
  C3. The document whose first table has the headers \<open>Nombre\<close>, \<open>Marca\<close>, \<open>Fecha Compra\<close>
  and the one data row \<open>Taladro Bosch\<close>, \<open>Bosch\<close>, \<open>05/14/2023\<close>: the Table Normalizer gives
  these headers and this row, the Field Mapper sends itemName to column 0, brand to column 1
  and purchaseDate to column 2 (and no other field anywhere), and the handler produces
  exactly one item, with category Power Tools, purchase date \<open>2023-05-14\<close>, confidence 75
  and description \<open>Marca: Bosch\<close>, whatever the clock and the project name.
\<close>

theorem end_to_end_scenario:
  "processAzureTable scenario_table =
     \<lparr>headers = [''Nombre'', ''Marca'', ''Fecha Compra''],
      rows = [[''Taladro Bosch'', ''Bosch'', ''05/14/2023'']]\<rparr>
   \<and> detectFieldMappings [''Nombre'', ''Marca'', ''Fecha Compra''] ItemName = Some 0
   \<and> detectFieldMappings [''Nombre'', ''Marca'', ''Fecha Compra''] Brand = Some 1
   \<and> detectFieldMappings [''Nombre'', ''Marca'', ''Fecha Compra''] PurchaseDate = Some 2
   \<and> map (detectFieldMappings [''Nombre'', ''Marca'', ''Fecha Compra''])
         [Condition, Model, SerialNumber, Specifications, Supplier, Quantity] =
       [None, None, None, None, None, None]
   \<and> extractedItems (extractInventory currentYear projName (Some [scenario_table])) =
       [\<lparr>item_id = ''azure_0'', project = projName, itemName = ''Taladro Bosch'',
         category = ''Power Tools'', condition = ''Good'',
         purchaseDate = Some ''2023-05-14'', description = ''Marca: Bosch'',
         confidence = 75, validationIssues = [], source = ''azure_ai''\<rparr>]
   \<and> totalItems (extractInventory currentYear projName (Some [scenario_table])) = 1"
  by code_simp

section \<open>Confidence score\<close>

text \<open>
  C5. For every row and every mapping the confidence score is the sum of the weights
  (itemName 50, brand 15, model 15, purchaseDate 10, specifications 10) of the fields that
  are mapped to a cell of the row that is not empty after trimming, clamped to at most 100;
  so it is a natural number not above 100.
\<close>

theorem calculateItemConfidence_weights:
  "calculateItemConfidence row m =
     min 100 (sum_list (map (\<lambda>(f, w). if fieldPresent row m f then w else 0) confidenceWeights))
   \<and> calculateItemConfidence row m \<le> 100"
  by (simp add: calculateItemConfidence_def getFieldValue_present confidenceWeights_def Let_def)

section \<open>Orchestrator: no table, no headers or no rows\<close>

text \<open>
  C8. When the analysis result has no tables (the property is absent or the list is empty),
  or the first table normalizes to no headers or to no rows, the handler answers with the
  success payload: no items, \<open>totalItems\<close> 0, \<open>confidenceScore\<close> 0 and
  \<open>fieldMappingSuccess\<close> false.
\<close>

theorem no_table_gives_empty_result:
  "result_tables = None \<or> result_tables = Some []
   \<or> (\<exists>t ts. result_tables = Some (t # ts)
         \<and> (headers (processAzureTable t) = [] \<or> rows (processAzureTable t) = [])) \<Longrightarrow>
     success (extractInventory currentYear projName result_tables)
     \<and> extractedItems (extractInventory currentYear projName result_tables) = []
     \<and> totalItems (extractInventory currentYear projName result_tables) = 0
     \<and> confidenceScore (processingInfo (extractInventory currentYear projName result_tables)) = 0
     \<and> \<not> fieldMappingSuccess (processingInfo (extractInventory currentYear projName result_tables))"
proof -
  assume "result_tables = None \<or> result_tables = Some []
   \<or> (\<exists>t ts. result_tables = Some (t # ts)
         \<and> (headers (processAzureTable t) = [] \<or> rows (processAzureTable t) = []))"
  then have "extractItems currentYear projName
               (case result_tables of None \<Rightarrow> [] | Some ts \<Rightarrow> ts) = ([], 0)"
    by (auto simp: extractItems_Nil extractItems_guard)
  then show ?thesis by (rule response_of_no_items)
qed

theorem no_table_gives_empty_result_witness:
  "totalItems (extractInventory 2026 ''SITE A'' None) = 0
   \<and> confidenceScore (processingInfo (extractInventory 2026 ''SITE A'' (Some []))) = 0
   \<and> rows (processAzureTable header_only_table) = []
   \<and> \<not> fieldMappingSuccess
         (processingInfo (extractInventory 2026 ''SITE A'' (Some [header_only_table])))"
proof -
  have r: "rows (processAzureTable header_only_table) = []" by code_simp
  have "\<not> fieldMappingSuccess
         (processingInfo (extractInventory 2026 ''SITE A'' (Some [header_only_table])))"
    using no_table_gives_empty_result [of "Some [header_only_table]" 2026 "''SITE A''"] r
    by blast
  moreover have "totalItems (extractInventory 2026 ''SITE A'' None) = 0"
    using no_table_gives_empty_result [of None 2026 "''SITE A''"] by blast
  moreover have "confidenceScore (processingInfo (extractInventory 2026 ''SITE A'' (Some []))) = 0"
    using no_table_gives_empty_result [of "Some []" 2026 "''SITE A''"] by blast
  ultimately show ?thesis using r by blast
qed

section \<open>Orchestrator: blank rows\<close>

text \<open>
  C9. A row whose cells are all empty after trimming leaves the list of items and the sum
  of confidences as they were; the rows loop produces one item for each other row, in
  order, and sums their confidence scores; and in the handler's answer \<open>totalItems\<close> counts
  the other rows only, and \<open>confidenceScore\<close> is 0 when there is none and else the sum of
  their scores divided by their number, rounded to the nearest integer
  (\<open>Math_round_div_real\<close>).
\<close>

theorem blank_rows_are_skipped:
  "(\<forall>row. allBlank row \<longrightarrow> (\<forall>i st. processRow currentYear projName m hdrs (i, row) st = st))
   \<and> processRows currentYear projName m hdrs rws =
       (map (\<lambda>ir. makeItem currentYear projName m hdrs (fst ir) (snd ir)) (keptRows rws),
        sum_list (map (\<lambda>ir. calculateItemConfidence (snd ir) m) (keptRows rws)))
   \<and> (headers (processAzureTable t) \<noteq> [] \<and> rows (processAzureTable t) \<noteq> [] \<longrightarrow>
        (let td = processAzureTable t;
             kept = keptRows (rows td);
             scores = map (\<lambda>ir. calculateItemConfidence (snd ir) (detectFieldMappings (headers td))) kept;
             r = extractInventory currentYear projName (Some (t # ts))
         in totalItems r = length kept
            \<and> length (extractedItems r) = length kept
            \<and> map confidence (extractedItems r) = scores
            \<and> confidenceScore (processingInfo r) =
                (if kept = [] then 0 else Math_round_div (sum_list scores) (length kept))))"
  by (simp add: processRow_blank processRows_kept extractInventory_def Let_def extractItems_main
        makeItem_def comp_def)

theorem blank_rows_are_skipped_witness:
  "allBlank [''  '', []]
   \<and> processRow 2026 ''SITE A'' Map.empty [] (1, [''  '', []]) ([], 0) = ([], 0)
   \<and> rows (processAzureTable blank_row_table) =
       [[''Taladro Bosch'', ''Bosch''], [''  '', []], [''Casco'', []]]
   \<and> totalItems (extractInventory 2026 ''SITE A'' (Some [blank_row_table])) = 2
   \<and> confidenceScore (processingInfo (extractInventory 2026 ''SITE A'' (Some [blank_row_table])))
       = 58"
proof -
  note inst = blank_rows_are_skipped [of 2026 "''SITE A''" Map.empty "[]" "[]" blank_row_table "[]"]
  have b: "allBlank [''  '', []]" by code_simp
  have td: "processAzureTable blank_row_table =
      \<lparr>headers = [''Nombre'', ''Marca''],
       rows = [[''Taladro Bosch'', ''Bosch''], [''  '', []], [''Casco'', []]]\<rparr>"
    by code_simp
  have kept: "keptRows [[''Taladro Bosch'', ''Bosch''], [''  '', []], [''Casco'', []]] =
      [(0, [''Taladro Bosch'', ''Bosch'']), (2, [''Casco'', []])]"
    by code_simp
  have s0: "calculateItemConfidence [''Taladro Bosch'', ''Bosch'']
              (detectFieldMappings [''Nombre'', ''Marca'']) = 65"
    by code_simp
  have s2: "calculateItemConfidence [''Casco'', []]
              (detectFieldMappings [''Nombre'', ''Marca'']) = 50"
    by code_simp
  have r: "Math_round_div 115 (Suc (Suc 0)) = 58" by (simp add: Math_round_div_def)
  from inst b have skip: "processRow 2026 ''SITE A'' Map.empty [] (1, [''  '', []]) ([], 0) = ([], 0)"
    by blast
  from inst have
    "totalItems (extractInventory 2026 ''SITE A'' (Some [blank_row_table])) = 2
     \<and> confidenceScore (processingInfo (extractInventory 2026 ''SITE A'' (Some [blank_row_table])))
         = 58"
    by (simp add: td kept s0 s2 r Let_def)
  with b skip td show ?thesis by simp
qed

section \<open>Field Mapper: a header that normalizes to the empty string\<close>

text \<open>
  C10. When a header normalizes to the empty string, every pattern of every target field
  passes the two-way substring test against it (the empty string is contained in every
  pattern), so the header matches every field; and for the headers list made of that one
  header the Field Mapper assigns every target field to column 0.
\<close>

theorem empty_header_matches_everything:
  "normalizeHeader h = [] \<Longrightarrow>
     (\<forall>f. \<forall>p \<in> set (fieldPatterns f).
         str_includes (normalizeHeader h) p \<or> str_includes p (normalizeHeader h))
     \<and> (\<forall>f. headerMatches (fieldPatterns f) (normalizeHeader h))
     \<and> (\<forall>f. detectFieldMappings [h] f = Some 0)"
  by (simp add: detectFieldMappings_single_empty headerMatches_empty str_includes_def)

theorem empty_header_matches_everything_witness:
  "normalizeHeader ''- / -'' = []
   \<and> headerMatches (fieldPatterns Quantity) (normalizeHeader ''- / -'')
   \<and> map (detectFieldMappings [''- / -'']) fieldOrder =
       [Some 0, Some 0, Some 0, Some 0, Some 0, Some 0, Some 0, Some 0, Some 0]"
proof -
  have h: "normalizeHeader ''- / -'' = []" by code_simp
  from empty_header_matches_everything [OF h]
  have m: "headerMatches (fieldPatterns Quantity) (normalizeHeader ''- / -'')"
    and d: "\<And>f. detectFieldMappings [''- / -''] f = Some 0"
    by blast+
  from h m d show ?thesis
    by (simp add: fieldOrder_def del: fieldPatterns.simps)
qed

end
